theory Spec2Isabelle
  imports Main
begin

section \<open>The object-graph synchronizer of node-bluez (src/lib/Bluez.js)\<close>

text \<open>
  The class \<open>Bluez\<close> keeps three dictionaries: \<open>adapter\<close> (adapter id to handle),
  \<open>devices\<close> (device address to the device's object path, or to its handle once one
  was built) and \<open>_path\<close> (object path to the GATT object announced there).  They are
  filled by \<open>onInterfacesAdded\<close>, emptied by \<open>onInterfaceRemoved\<close> and read by
  \<open>getAdapter\<close> and \<open>getDevice\<close>.

  Every \<open>async\<close> function is modelled run to completion: an \<open>await\<close> yields the
  bus's answer at once, and a rejected promise is an error value returned together
  with the state reached when the exception was thrown.  The interleaving of two
  \<open>getDevice\<close> calls at their \<open>await\<close>s is modelled separately, from the same
  pieces.
\<close>

subsection \<open>Strings and the three regular expressions\<close>

text \<open>\<open>\w\<close> of a JavaScript regular expression: an ASCII letter, a digit or the underscore.\<close>

definition is_word :: "char \<Rightarrow> bool" where
  "is_word c \<longleftrightarrow>
     c \<in> set ''abcdefghijklmnopqrstuvwxyzABCDEFGHIJKLMNOPQRSTUVWXYZ0123456789_''"

text \<open>\<open>\w+\<close> matching a whole string.\<close>

definition word_seg :: "string \<Rightarrow> bool" where
  "word_seg w \<longleftrightarrow> w \<noteq> [] \<and> list_all is_word w"

fun strip_prefix :: "string \<Rightarrow> string \<Rightarrow> string option" where
  "strip_prefix [] s = Some s"
| "strip_prefix (p # ps) [] = None"
| "strip_prefix (p # ps) (c # cs) = (if p = c then strip_prefix ps cs else None)"

text \<open>\<open>s.replace(/:/g, "_")\<close> and \<open>s.replace(/_/g, ":")\<close>.\<close>

definition colons_to_underscores :: "string \<Rightarrow> string" where
  "colons_to_underscores s = map (\<lambda>c. if c = CHR '':'' then CHR ''_'' else c) s"

definition underscores_to_colons :: "string \<Rightarrow> string" where
  "underscores_to_colons s = map (\<lambda>c. if c = CHR ''_'' then CHR '':'' else c) s"

text \<open>
  \<open>dev.match(new RegExp("^/org/bluez/(\\w+)$"))\<close> of \<open>getAdapter\<close>: the result is
  group 1, or \<open>None\<close> for \<open>null\<close>.
\<close>

definition match_adapter :: "string \<Rightarrow> string option" where
  "match_adapter s =
     (case strip_prefix ''/org/bluez/'' s of
        None \<Rightarrow> None
      | Some w \<Rightarrow> if word_seg w then Some w else None)"

text \<open>
  \<open>address.match(new RegExp("^/org/bluez/(\\w+)/dev_(\\w+)$"))\<close> of \<open>getDevice\<close>:
  groups 1 and 2.  A slash is not a word character, so group 1 is the longest run of
  word characters after the prefix.
\<close>

definition match_device :: "string \<Rightarrow> (string \<times> string) option" where
  "match_device s =
     (case strip_prefix ''/org/bluez/'' s of
        None \<Rightarrow> None
      | Some t \<Rightarrow>
          if takeWhile is_word t = [] then None
          else (case strip_prefix ''/dev_'' (dropWhile is_word t) of
                  None \<Rightarrow> None
                | Some d \<Rightarrow> if word_seg d then Some (takeWhile is_word t, d) else None))"

text \<open>
  \<open>path.match(new RegExp("^/org/bluez/(\\w+)(?:/dev_(\\w+))?$"))\<close> of
  \<open>onInterfaceRemoved\<close>: group 1, and group 2 when the optional part took part in
  the match (\<open>undefined\<close> otherwise).
\<close>

definition match_removed :: "string \<Rightarrow> (string \<times> string option) option" where
  "match_removed s =
     (case strip_prefix ''/org/bluez/'' s of
        None \<Rightarrow> None
      | Some t \<Rightarrow>
          if takeWhile is_word t = [] then None
          else if dropWhile is_word t = [] then Some (takeWhile is_word t, None)
          else (case strip_prefix ''/dev_'' (dropWhile is_word t) of
                  None \<Rightarrow> None
                | Some d \<Rightarrow> if word_seg d then Some (takeWhile is_word t, Some d) else None))"

subsection \<open>Values, handles and the store\<close>

text \<open>
  What \<open>getInterface('org.bluez', path, name)\<close> resolves to: an opaque proxy, known
  here by the path and the interface name it was bound with.
\<close>

record interface =
  ipath :: string
  iname :: string

text \<open>
  The bus is outside the repository: \<open>bus path name\<close> tells whether
  \<open>getInterface('org.bluez', path, name)\<close> resolves (otherwise it rejects).
\<close>

type_synonym bus = "string \<Rightarrow> string \<Rightarrow> bool"

definition bind :: "string \<Rightarrow> string \<Rightarrow> interface" where
  "bind p n = \<lparr>ipath = p, iname = n\<rparr>"

text \<open>
  \<open>Error msg\<close> is \<open>new Error(msg)\<close>; \<open>TypeError\<close> is what reading or writing a
  property of \<open>null\<close> or \<open>undefined\<close> throws; \<open>BusError\<close> is a rejected
  \<open>getInterface\<close>.
\<close>

datatype error = Error string | TypeError | BusError

type_synonym ref = nat

text \<open>
  A value found under a key of \<open>adapter\<close>, \<open>devices\<close> or \<open>_path\<close>: a string, an
  object, or a member inherited from \<open>Object.prototype\<close> (the dictionaries are
  created as \<open>{}\<close>, so a key such as \<open>toString\<close> reads as a function although it
  was never stored).  \<open>Inherited\<close> is never stored.
\<close>

datatype 'h jsval = Str string | Obj 'h | Inherited

definition object_prototype_keys :: "string list" where
  "object_prototype_keys =
     [''constructor'', ''hasOwnProperty'', ''isPrototypeOf'', ''propertyIsEnumerable'',
      ''toLocaleString'', ''toString'', ''valueOf'', ''__proto__'', ''__defineGetter__'',
      ''__defineSetter__'', ''__lookupGetter__'', ''__lookupSetter__'']"

text \<open>\<open>obj[k]\<close>: \<open>None\<close> is \<open>undefined\<close>.\<close>

definition js_get :: "(string \<rightharpoonup> 'h jsval) \<Rightarrow> string \<Rightarrow> 'h jsval option" where
  "js_get m k =
     (case m k of
        Some v \<Rightarrow> Some v
      | None \<Rightarrow> if k \<in> set object_prototype_keys then Some Inherited else None)"

text \<open>\<open>obj[k] = str\<close>: assigning a string to \<open>__proto__\<close> is ignored.\<close>

definition js_set_str :: "(string \<rightharpoonup> 'h jsval) \<Rightarrow> string \<Rightarrow> string \<Rightarrow> (string \<rightharpoonup> 'h jsval)" where
  "js_set_str m k v = (if k = ''__proto__'' then m else m(k \<mapsto> Str v))"

text \<open>
  The GATT objects.  After it is built, a Service or Characteristic object only has
  the dictionary in its \<open>characteristics\<close> or \<open>descriptors\<close> field written to, and
  that dictionary can be shared with a placeholder or with an earlier object of the
  same path; so the dictionaries live in a store and the objects hold references to
  them.

  Bluez.js only writes to the child dictionaries; they are read by the accessors of
  the classes Service and Characteristic.
\<close>

record descriptor =
  d_iface :: interface

record characteristic =
  c_iface :: interface
  c_changed :: interface
  descriptors :: ref

record service =
  s_iface :: interface
  characteristics :: ref

record device =
  dev_iface :: interface
  dev_changed :: interface
  services :: "string \<rightharpoonup> service"

record adapter_obj =
  a_iface :: interface

text \<open>
  What \<open>_path\<close> holds: a Service, a Characteristic, or one of the two placeholders
  \<open>{ characteristics: {} }\<close> and \<open>{ descriptors: {} }\<close>.
\<close>

datatype pobj =
    PService service
  | PCharacteristic characteristic
  | PHolderC ref
  | PHolderD ref

text \<open>
  \<open>this._path[k]\<close>.  \<open>_path\<close> is created as \<open>{}\<close> too, so a key that names a
  member of \<open>Object.prototype\<close> reads as that member when nothing was stored under
  it.  Assigning an object to \<open>_path['__proto__']\<close> (lines 290 and 309, for a
  notification at that path) makes the object the prototype of \<open>_path\<close>, and it is
  what \<open>_path['__proto__']\<close> reads from then on: the entry of the map under that
  key stands for it.  What \<open>_path\<close> would inherit further from such an object is
  decided by the classes Service and Characteristic, which are not among the sources,
  and is not modelled.
\<close>

definition path_get :: "(string \<rightharpoonup> pobj) \<Rightarrow> string \<Rightarrow> pobj jsval option" where
  "path_get m k =
     (case m k of
        Some ob \<Rightarrow> Some (Obj ob)
      | None \<Rightarrow> if k \<in> set object_prototype_keys then Some Inherited else None)"

text \<open>
  \<open>ob.characteristics\<close> and \<open>ob.descriptors\<close>: \<open>None\<close> is \<open>undefined\<close>, which
  is also what a member of \<open>Object.prototype\<close> has there.
\<close>

fun get_characteristics :: "pobj \<Rightarrow> ref option" where
  "get_characteristics (PService sv) = Some (characteristics sv)"
| "get_characteristics (PHolderC r) = Some r"
| "get_characteristics (PCharacteristic c) = None"
| "get_characteristics (PHolderD r) = None"

fun get_descriptors :: "pobj \<Rightarrow> ref option" where
  "get_descriptors (PCharacteristic c) = Some (descriptors c)"
| "get_descriptors (PHolderD r) = Some r"
| "get_descriptors (PService sv) = None"
| "get_descriptors (PHolderC r) = None"

fun js_characteristics :: "pobj jsval \<Rightarrow> ref option" where
  "js_characteristics (Obj ob) = get_characteristics ob"
| "js_characteristics (Str p) = None"
| "js_characteristics Inherited = None"

fun js_descriptors :: "pobj jsval \<Rightarrow> ref option" where
  "js_descriptors (Obj ob) = get_descriptors ob"
| "js_descriptors (Str p) = None"
| "js_descriptors Inherited = None"

subsection \<open>Notifications and events\<close>

text \<open>
  The property bags of a notification, with the properties the code reads.  The
  Adapter1 bag is kept whole and never read.
\<close>

type_synonym props = "(string \<times> string) list"

record device1 =
  Address :: string
  dev_rest :: props

record gatt_service1 =
  sv_Device :: string
  sv_UUID :: string

record gatt_characteristic1 =
  ch_Service :: string
  ch_UUID :: string

record gatt_descriptor1 =
  ds_Characteristic :: string
  ds_UUID :: string

text \<open>
  The \<open>interfaces\<close> argument of \<open>onInterfacesAdded\<close>: a field is \<open>Some\<close> when the
  interface name is a key of the dictionary.
\<close>

record interfaces =
  Adapter1 :: "props option"
  Device1 :: "device1 option"
  GattService1 :: "gatt_service1 option"
  GattCharacteristic1 :: "gatt_characteristic1 option"
  GattDescriptor1 :: "gatt_descriptor1 option"

datatype event = DeviceEvent string device1 | ErrorEvent string

subsection \<open>The state of a Bluez object\<close>

text \<open>
  \<open>path_reg\<close> is the field \<open>_path\<close>.  \<open>devobjs\<close>, \<open>cdicts\<close> and \<open>ddicts\<close> are
  the store: Device objects, characteristic dictionaries and descriptor dictionaries
  by reference, and \<open>nxt\<close> is the next unused reference.  \<open>events\<close> lists what
  \<open>emit\<close> delivered to listeners, in order; listeners are application code and are
  taken to return without throwing and without changing the dictionaries before they
  return.  \<open>error_listener\<close> tells whether a listener for \<open>'error'\<close> is registered.
\<close>

record bluez =
  adapter :: "string \<rightharpoonup> adapter_obj jsval"
  adapter_props :: "props option"
  devices :: "string \<rightharpoonup> ref jsval"
  path_reg :: "string \<rightharpoonup> pobj"
  devobjs :: "ref \<Rightarrow> device"
  cdicts :: "ref \<Rightarrow> (string \<rightharpoonup> characteristic)"
  ddicts :: "ref \<Rightarrow> (string \<rightharpoonup> descriptor)"
  nxt :: ref
  events :: "event list"
  error_listener :: bool

text \<open>
  Modelled from the spec: the classes Adapter, Device, Service, Characteristic and
  Descriptor are required by Bluez.js and are not among the sources.  A Device owns a
  map of Service by UUID, a Service a map of Characteristic by UUID and a
  Characteristic a map of Descriptor by UUID; a constructor stores the interfaces it
  is given and starts with an empty map.
\<close>

definition new_Adapter :: "interface \<Rightarrow> adapter_obj" where
  "new_Adapter i = \<lparr>a_iface = i\<rparr>"

definition new_Device :: "interface \<Rightarrow> interface \<Rightarrow> device" where
  "new_Device i c = \<lparr>dev_iface = i, dev_changed = c, services = Map.empty\<rparr>"

definition new_Descriptor :: "interface \<Rightarrow> descriptor" where
  "new_Descriptor i = \<lparr>d_iface = i\<rparr>"

text \<open>A new empty dictionary \<open>{}\<close> of characteristics, or of descriptors.\<close>

definition new_cdict :: "bluez \<Rightarrow> ref \<times> bluez" where
  "new_cdict s = (nxt s, s\<lparr>cdicts := (cdicts s)(nxt s := Map.empty), nxt := Suc (nxt s)\<rparr>)"

definition new_ddict :: "bluez \<Rightarrow> ref \<times> bluez" where
  "new_ddict s = (nxt s, s\<lparr>ddicts := (ddicts s)(nxt s := Map.empty), nxt := Suc (nxt s)\<rparr>)"

definition new_Service :: "interface \<Rightarrow> bluez \<Rightarrow> service \<times> bluez" where
  "new_Service i s =
     (let (r, s1) = new_cdict s in (\<lparr>s_iface = i, characteristics = r\<rparr>, s1))"

definition new_Characteristic :: "interface \<Rightarrow> interface \<Rightarrow> bluez \<Rightarrow> characteristic \<times> bluez" where
  "new_Characteristic i c s =
     (let (r, s1) = new_ddict s in (\<lparr>c_iface = i, c_changed = c, descriptors = r\<rparr>, s1))"

text \<open>The constructor of Bluez (lines 16 to 31): three empty dictionaries.\<close>

definition new_Bluez :: "bool \<Rightarrow> bluez" where
  "new_Bluez l =
     \<lparr>adapter = Map.empty, adapter_props = None, devices = Map.empty, path_reg = Map.empty,
      devobjs = (\<lambda>r. new_Device (bind [] []) (bind [] [])),
      cdicts = (\<lambda>r. Map.empty), ddicts = (\<lambda>r. Map.empty), nxt = 0, events = [],
      error_listener = l\<rparr>"

subsection \<open>getAdapter (lines 46 to 67)\<close>

text \<open>
  A cached object (or an inherited member) is returned as it is.  Otherwise the
  interface is bound at the stored string, or at the default path; a rejected bind is
  caught and becomes \<open>Error("Adapter not found")\<close>.  An empty string is falsy.
\<close>

definition adapter_id :: "string \<Rightarrow> string" where
  "adapter_id dev0 = (case match_adapter dev0 of Some w \<Rightarrow> w | None \<Rightarrow> dev0)"

definition getAdapter :: "bus \<Rightarrow> string \<Rightarrow> bluez \<Rightarrow> (error + adapter_obj jsval) \<times> bluez" where
  "getAdapter b dev0 s =
     (let dev = adapter_id dev0;
          dflt = ''/org/bluez/'' @ dev;
          bound = (\<lambda>p.
            if b p ''org.bluez.Adapter1''
            then (Inr (Obj (new_Adapter (bind p ''org.bluez.Adapter1''))),
                  s\<lparr>adapter := (adapter s)(dev \<mapsto> Obj (new_Adapter (bind p ''org.bluez.Adapter1'')))\<rparr>)
            else (Inl (Error ''Adapter not found''), s))
      in case js_get (adapter s) dev of
           None \<Rightarrow> bound dflt
         | Some (Str p) \<Rightarrow> if p = [] then bound dflt else bound p
         | Some (Obj a) \<Rightarrow> (Inr (Obj a), s)
         | Some Inherited \<Rightarrow> (Inr Inherited, s))"

subsection \<open>getDevice (lines 69 to 89)\<close>

text \<open>
  Lines 70 to 78, up to the first \<open>await\<close>: the result when the function returns or
  throws there, or else the normalised address, the path the Device1 interface is
  asked at and the path the Properties interface will be asked at.
\<close>

definition properties_path :: "string \<Rightarrow> string" where
  "properties_path address0 = ''/org/bluez/hci0/dev_'' @ colons_to_underscores address0"

definition device_address :: "string \<Rightarrow> string" where
  "device_address address0 =
     underscores_to_colons (case match_device address0 of Some (a, d) \<Rightarrow> d | None \<Rightarrow> address0)"

definition getDevice_enter ::
  "string \<Rightarrow> bluez \<Rightarrow> (error + ref jsval) + (string \<times> string \<times> string)" where
  "getDevice_enter address0 s =
     (case js_get (devices s) (device_address address0) of
        None \<Rightarrow> Inl (Inl (Error ''Device not found''))
      | Some (Str p) \<Rightarrow>
          if p = [] then Inl (Inl (Error ''Device not found''))
          else Inr (device_address address0, p, properties_path address0)
      | Some (Obj r) \<Rightarrow> Inl (Inr (Obj r))
      | Some Inherited \<Rightarrow> Inl (Inr Inherited))"

text \<open>
  Lines 82 to 88, after the second \<open>await\<close>: the dictionary is read again, and a
  Device is built and stored unless a handle is there by now.
\<close>

definition getDevice_install ::
  "string \<Rightarrow> interface \<Rightarrow> interface \<Rightarrow> bluez \<Rightarrow> ref jsval \<times> bluez" where
  "getDevice_install address iface changed s =
     (let create =
            (Obj (nxt s),
             s\<lparr>devices := (devices s)(address \<mapsto> Obj (nxt s)),
               devobjs := (devobjs s)(nxt s := new_Device iface changed),
               nxt := Suc (nxt s)\<rparr>)
      in case js_get (devices s) address of
           None \<Rightarrow> create
         | Some (Str p) \<Rightarrow> create
         | Some (Obj r) \<Rightarrow> (Obj r, s)
         | Some Inherited \<Rightarrow> (Inherited, s))"

definition getDevice :: "bus \<Rightarrow> string \<Rightarrow> bluez \<Rightarrow> (error + ref jsval) \<times> bluez" where
  "getDevice b address0 s =
     (case getDevice_enter address0 s of
        Inl r \<Rightarrow> (r, s)
      | Inr (address, p, pp) \<Rightarrow>
          if \<not> b p ''org.bluez.Device1'' then (Inl BusError, s)
          else if \<not> b pp ''org.freedesktop.DBus.Properties'' then (Inl BusError, s)
          else (let (v, s1) = getDevice_install address (bind p ''org.bluez.Device1'')
                                (bind pp ''org.freedesktop.DBus.Properties'') s
                in (Inr v, s1)))"

subsection \<open>onInterfacesAdded (lines 262 to 323)\<close>

text \<open>
  The segments that line 265 takes from the path are not used afterwards (the names
  are declared again inside the blocks), so they are left out.  Each block below is
  one \<open>if ('org.bluez...' in interfaces)\<close> of the function; a block returns
  \<open>Some e\<close> when it throws.
\<close>

definition emit_device :: "device1 \<Rightarrow> bluez \<Rightarrow> bluez" where
  "emit_device props s = s\<lparr>events := events s @ [DeviceEvent (Address props) props]\<rparr>"

text \<open>Lines 267 to 270.\<close>

definition added_Adapter1 :: "props \<Rightarrow> bluez \<Rightarrow> bluez" where
  "added_Adapter1 props s = s\<lparr>adapter_props := Some props\<rparr>"

text \<open>Lines 271 to 275.\<close>

definition added_Device1 :: "string \<Rightarrow> device1 \<Rightarrow> bluez \<Rightarrow> bluez" where
  "added_Device1 path props s =
     emit_device props (s\<lparr>devices := js_set_str (devices s) (Address props) path\<rparr>)"

text \<open>
  \<open>dev.services[uuid] = service\<close>: only a Device object has a \<open>services\<close> field;
  on any other value the field reads \<open>undefined\<close> and the assignment throws.
\<close>

definition set_service :: "ref jsval \<Rightarrow> string \<Rightarrow> service \<Rightarrow> bluez \<Rightarrow> error option \<times> bluez" where
  "set_service dev uuid sv s =
     (case dev of
        Obj d \<Rightarrow>
          (None, s\<lparr>devobjs := (devobjs s)(d := (devobjs s d)\<lparr>services := (services (devobjs s d))(uuid \<mapsto> sv)\<rparr>)\<rparr>)
      | Str p \<Rightarrow> (Some TypeError, s)
      | Inherited \<Rightarrow> (Some TypeError, s))"

text \<open>
  Lines 284 to 287: a service announced at a path under which \<open>_path\<close> holds
  something takes that object's \<open>characteristics\<close>, or a new \<open>{}\<close> when it has
  none.
\<close>

definition copy_characteristics :: "string \<Rightarrow> service \<Rightarrow> bluez \<Rightarrow> service \<times> bluez" where
  "copy_characteristics path service0 s =
     (case path_get (path_reg s) path of
        None \<Rightarrow> (service0, s)
      | Some ob \<Rightarrow>
          (case js_characteristics ob of
             Some r \<Rightarrow> (service0\<lparr>characteristics := r\<rparr>, s)
           | None \<Rightarrow> (let (r, t) = new_cdict s in (service0\<lparr>characteristics := r\<rparr>, t))))"

text \<open>Lines 276 to 291.\<close>

definition added_GattService1 ::
  "bus \<Rightarrow> string \<Rightarrow> gatt_service1 \<Rightarrow> bluez \<Rightarrow> error option \<times> bluez" where
  "added_GattService1 b path props s =
     (if \<not> b path ''org.bluez.GattService1'' then (Some BusError, s)
      else
        let (service0, s1) = new_Service (bind path ''org.bluez.GattService1'') s in
        case getDevice b (sv_Device props) s1 of
          (Inl e, s2) \<Rightarrow> (Some e, s2)
        | (Inr dev, s2) \<Rightarrow>
            (let (service, s3) = copy_characteristics path service0 s2
             in case set_service dev (sv_UUID props) service s3 of
                  (Some e, s4) \<Rightarrow> (Some e, s4)
                | (None, s4) \<Rightarrow>
                    (None, s4\<lparr>path_reg := (path_reg s4)(path \<mapsto> PService service)\<rparr>)))"

text \<open>
  Lines 299 to 302: a characteristic announced at a path under which \<open>_path\<close>
  holds something takes that object's \<open>descriptors\<close>, or a new \<open>{}\<close> when it has
  none.
\<close>

definition copy_descriptors ::
  "string \<Rightarrow> characteristic \<Rightarrow> bluez \<Rightarrow> characteristic \<times> bluez" where
  "copy_descriptors path characteristic0 s =
     (case path_get (path_reg s) path of
        None \<Rightarrow> (characteristic0, s)
      | Some ob \<Rightarrow>
          (case js_descriptors ob of
             Some r \<Rightarrow> (characteristic0\<lparr>descriptors := r\<rparr>, s)
           | None \<Rightarrow> (let (r, t) = new_ddict s in (characteristic0\<lparr>descriptors := r\<rparr>, t))))"

text \<open>
  Lines 304 to 307: what \<open>this._path[props.Service]\<close> reads, after a placeholder
  was stored there when it read \<open>undefined\<close>.
\<close>

definition service_or_holder :: "string \<Rightarrow> bluez \<Rightarrow> pobj jsval \<times> bluez" where
  "service_or_holder sp s =
     (case path_get (path_reg s) sp of
        None \<Rightarrow>
          (let (r, t) = new_cdict s
           in (Obj (PHolderC r), t\<lparr>path_reg := (path_reg t)(sp \<mapsto> PHolderC r)\<rparr>))
      | Some ob \<Rightarrow> (ob, s))"

text \<open>
  Lines 292 to 310.  Line 308 throws when the object under the service's path has
  no \<open>characteristics\<close>.
\<close>

definition added_GattCharacteristic1 ::
  "bus \<Rightarrow> string \<Rightarrow> gatt_characteristic1 \<Rightarrow> bluez \<Rightarrow> error option \<times> bluez" where
  "added_GattCharacteristic1 b path props s =
     (if \<not> b path ''org.bluez.GattCharacteristic1'' then (Some BusError, s)
      else if \<not> b path ''org.freedesktop.DBus.Properties'' then (Some BusError, s)
      else
        let (characteristic0, s1) =
              new_Characteristic (bind path ''org.bluez.GattCharacteristic1'')
                (bind path ''org.freedesktop.DBus.Properties'') s;
            (characteristic, s2) = copy_descriptors path characteristic0 s1;
            (owner, s3) = service_or_holder (ch_Service props) s2
        in case js_characteristics owner of
             None \<Rightarrow> (Some TypeError, s3)
           | Some r \<Rightarrow>
               (None,
                s3\<lparr>cdicts := (cdicts s3)(r := (cdicts s3 r)(ch_UUID props \<mapsto> characteristic)),
                   path_reg := (path_reg s3)(path \<mapsto> PCharacteristic characteristic)\<rparr>))"

text \<open>
  Lines 317 to 320: what \<open>this._path[props.Characteristic]\<close> reads, after a
  placeholder was stored there when it read \<open>undefined\<close>.
\<close>

definition characteristic_or_holder :: "string \<Rightarrow> bluez \<Rightarrow> pobj jsval \<times> bluez" where
  "characteristic_or_holder cp s =
     (case path_get (path_reg s) cp of
        None \<Rightarrow>
          (let (r, t) = new_ddict s
           in (Obj (PHolderD r), t\<lparr>path_reg := (path_reg t)(cp \<mapsto> PHolderD r)\<rparr>))
      | Some ob \<Rightarrow> (ob, s))"

text \<open>
  Lines 311 to 322.  Line 321 throws when the object under the characteristic's
  path has no \<open>descriptors\<close>.
\<close>

definition added_GattDescriptor1 ::
  "bus \<Rightarrow> string \<Rightarrow> gatt_descriptor1 \<Rightarrow> bluez \<Rightarrow> error option \<times> bluez" where
  "added_GattDescriptor1 b path props s =
     (if \<not> b path ''org.bluez.GattDescriptor1'' then (Some BusError, s)
      else
        let descriptor = new_Descriptor (bind path ''org.bluez.GattDescriptor1'');
            (owner, s1) = characteristic_or_holder (ds_Characteristic props) s
        in case js_descriptors owner of
             None \<Rightarrow> (Some TypeError, s1)
           | Some r \<Rightarrow>
               (None, s1\<lparr>ddicts := (ddicts s1)(r := (ddicts s1 r)(ds_UUID props \<mapsto> descriptor))\<rparr>))"

text \<open>
  An exception thrown by one block skips the blocks after it: \<open>then_block r f\<close>
  runs \<open>f\<close> on the state of \<open>r\<close> unless \<open>r\<close> has thrown.
\<close>

definition then_block ::
  "error option \<times> bluez \<Rightarrow> (bluez \<Rightarrow> error option \<times> bluez) \<Rightarrow> error option \<times> bluez" where
  "then_block r f = (case r of (Some e, s) \<Rightarrow> (Some e, s) | (None, s) \<Rightarrow> f s)"

text \<open>
  The five \<open>if ('org.bluez...' in interfaces)\<close> statements: a block runs when
  the notification names its interface.
\<close>

definition if_Adapter1 :: "interfaces \<Rightarrow> bluez \<Rightarrow> bluez" where
  "if_Adapter1 ifs s = (case Adapter1 ifs of None \<Rightarrow> s | Some props \<Rightarrow> added_Adapter1 props s)"

definition if_Device1 :: "string \<Rightarrow> interfaces \<Rightarrow> bluez \<Rightarrow> bluez" where
  "if_Device1 path ifs s =
     (case Device1 ifs of None \<Rightarrow> s | Some props \<Rightarrow> added_Device1 path props s)"

definition if_GattService1 :: "bus \<Rightarrow> string \<Rightarrow> interfaces \<Rightarrow> bluez \<Rightarrow> error option \<times> bluez" where
  "if_GattService1 b path ifs s =
     (case GattService1 ifs of
        None \<Rightarrow> (None, s)
      | Some props \<Rightarrow> added_GattService1 b path props s)"

definition if_GattCharacteristic1 ::
  "bus \<Rightarrow> string \<Rightarrow> interfaces \<Rightarrow> bluez \<Rightarrow> error option \<times> bluez" where
  "if_GattCharacteristic1 b path ifs s =
     (case GattCharacteristic1 ifs of
        None \<Rightarrow> (None, s)
      | Some props \<Rightarrow> added_GattCharacteristic1 b path props s)"

definition if_GattDescriptor1 ::
  "bus \<Rightarrow> string \<Rightarrow> interfaces \<Rightarrow> bluez \<Rightarrow> error option \<times> bluez" where
  "if_GattDescriptor1 b path ifs s =
     (case GattDescriptor1 ifs of
        None \<Rightarrow> (None, s)
      | Some props \<Rightarrow> added_GattDescriptor1 b path props s)"

text \<open>
  The whole handler: the five statements in the order of the source.  The result is
  \<open>None\<close> when the promise resolves and \<open>Some e\<close> when it rejects with \<open>e\<close>, with
  the state left by the blocks that ran.
\<close>

definition onInterfacesAdded ::
  "bus \<Rightarrow> string \<Rightarrow> interfaces \<Rightarrow> bluez \<Rightarrow> error option \<times> bluez" where
  "onInterfacesAdded b path ifs s =
     then_block
       (then_block
          (if_GattService1 b path ifs (if_Device1 path ifs (if_Adapter1 ifs s)))
          (if_GattCharacteristic1 b path ifs))
       (if_GattDescriptor1 b path ifs)"

subsection \<open>onInterfaceRemoved (lines 329 to 349)\<close>

text \<open>
  \<open>this.emit("error", e)\<close>: an EventEmitter with no listener for \<open>'error'\<close> throws
  \<open>e\<close> instead of delivering it.
\<close>

definition emit_error :: "string \<Rightarrow> bluez \<Rightarrow> error option \<times> bluez" where
  "emit_error msg s =
     (if error_listener s then (None, s\<lparr>events := events s @ [ErrorEvent msg]\<rparr>)
      else (Some (Error msg), s))"

text \<open>
  Lines 332 to 340.  \<open>match[2]\<close> throws when \<open>match\<close> is \<open>null\<close>; a group that
  matched is never empty, so it is truthy.
\<close>

definition removed_Device1 :: "string \<Rightarrow> bluez \<Rightarrow> error option \<times> bluez" where
  "removed_Device1 path s =
     (case match_removed path of
        None \<Rightarrow> (Some TypeError, s)
      | Some (a, Some d) \<Rightarrow> (None, s\<lparr>devices := (devices s)(underscores_to_colons d := None)\<rparr>)
      | Some (a, None) \<Rightarrow> emit_error ''Removed Device with unknown path'' s)"

text \<open>Lines 341 to 348.\<close>

definition removed_Adapter1 :: "string \<Rightarrow> bluez \<Rightarrow> error option \<times> bluez" where
  "removed_Adapter1 path s =
     (case match_removed path of
        None \<Rightarrow> (Some TypeError, s)
      | Some (a, d) \<Rightarrow>
          if a = [] then emit_error ''Removed Adapter with unknown path'' s
          else (None, s\<lparr>adapter := (adapter s)(a := None)\<rparr>))"

definition onInterfaceRemoved :: "string \<Rightarrow> string list \<Rightarrow> bluez \<Rightarrow> error option \<times> bluez" where
  "onInterfaceRemoved path ifs s =
     then_block
       (if ''org.bluez.Device1'' \<in> set ifs then removed_Device1 path s else (None, s))
       (\<lambda>s1. if ''org.bluez.Adapter1'' \<in> set ifs then removed_Adapter1 path s1 else (None, s1))"

subsection \<open>Reading the hierarchy\<close>

text \<open>
  \<open>device.getService(uuid)\<close> and \<open>service.getCharacteristic(uuid)\<close>, as the
  example program calls them: lookups in the child maps.
\<close>

definition getService :: "bluez \<Rightarrow> ref \<Rightarrow> string \<Rightarrow> service option" where
  "getService s d uuid = services (devobjs s d) uuid"

definition getCharacteristic :: "bluez \<Rightarrow> service \<Rightarrow> string \<Rightarrow> characteristic option" where
  "getCharacteristic s sv uuid = cdicts s (characteristics sv) uuid"

definition getDescriptor :: "bluez \<Rightarrow> characteristic \<Rightarrow> string \<Rightarrow> descriptor option" where
  "getDescriptor s c uuid = ddicts s (descriptors c) uuid"

text \<open>
  The characteristic announced at path \<open>pc\<close> with UUID \<open>uc\<close> is reachable from the
  handle stored under \<open>address\<close>: through the device's service map at \<open>us\<close>, where
  the Service bound at \<open>ps\<close> stands (the one \<open>_path\<close> holds for \<open>ps\<close>), and through
  that service's characteristic map at \<open>uc\<close>.
\<close>

definition characteristic_reachable ::
  "bluez \<Rightarrow> string \<Rightarrow> string \<Rightarrow> string \<Rightarrow> string \<Rightarrow> string \<Rightarrow> bool" where
  "characteristic_reachable t address us ps uc pc =
     (case devices t address of
        Some (Obj d) \<Rightarrow>
          (case getService t d us of
             Some sv \<Rightarrow>
               s_iface sv = bind ps ''org.bluez.GattService1'' \<and>
               path_reg t ps = Some (PService sv) \<and>
               (case getCharacteristic t sv uc of
                  Some c \<Rightarrow>
                    c_iface c = bind pc ''org.bluez.GattCharacteristic1'' \<and>
                    path_reg t pc = Some (PCharacteristic c)
                | None \<Rightarrow> False)
           | None \<Rightarrow> False)
      | Some (Str p) \<Rightarrow> False
      | Some Inherited \<Rightarrow> False
      | None \<Rightarrow> False)"

subsection \<open>Two getDevice calls in flight\<close>

text \<open>
  JavaScript runs an \<open>async\<close> function without interruption up to its next
  \<open>await\<close>, and other code can run before it continues.  A call of \<open>getDevice\<close>
  is therefore three uninterrupted steps: lines 70 to 79 (up to the first
  \<open>getInterface\<close>, which is issued there), lines 79 to 81 (the first answer to the
  second \<open>getInterface\<close>), and lines 81 to 88.  A \<open>call\<close> is where a call stands;
  the log lists the \<open>getInterface\<close> calls issued so far, as path and interface name.
\<close>

datatype call =
    Called string
  | AwaitDevice1 string string string
  | AwaitProperties string interface string
  | Returned "error + ref jsval"

type_synonym bus_log = "(string \<times> string) list"

fun advance :: "bus \<Rightarrow> call \<Rightarrow> bluez \<times> bus_log \<Rightarrow> call \<times> bluez \<times> bus_log" where
  "advance b (Called address0) (s, l) =
     (case getDevice_enter address0 s of
        Inl r \<Rightarrow> (Returned r, s, l)
      | Inr (address, p, pp) \<Rightarrow> (AwaitDevice1 address p pp, s, l @ [(p, ''org.bluez.Device1'')]))"
| "advance b (AwaitDevice1 address p pp) (s, l) =
     (if b p ''org.bluez.Device1''
      then (AwaitProperties address (bind p ''org.bluez.Device1'') pp, s,
            l @ [(pp, ''org.freedesktop.DBus.Properties'')])
      else (Returned (Inl BusError), s, l))"
| "advance b (AwaitProperties address iface pp) (s, l) =
     (if b pp ''org.freedesktop.DBus.Properties''
      then (let (v, s1) = getDevice_install address iface
                            (bind pp ''org.freedesktop.DBus.Properties'') s
            in (Returned (Inr v), s1, l))
      else (Returned (Inl BusError), s, l))"
| "advance b (Returned r) (s, l) = (Returned r, s, l)"

text \<open>
  Two calls and a schedule: at each entry the second call takes its next step when
  the entry is \<open>True\<close>, the first call otherwise.
\<close>

fun interleave ::
  "bus \<Rightarrow> bool list \<Rightarrow> call \<times> call \<times> bluez \<times> bus_log \<Rightarrow> call \<times> call \<times> bluez \<times> bus_log" where
  "interleave b [] x = x"
| "interleave b (w # ws) (c1, c2, s, l) =
     (if w then (case advance b c2 (s, l) of (c, s1, l1) \<Rightarrow> interleave b ws (c1, c, s1, l1))
      else (case advance b c1 (s, l) of (c, s1, l1) \<Rightarrow> interleave b ws (c, c2, s1, l1)))"

text \<open>All schedules of \<open>m\<close> steps of the first call and \<open>n\<close> steps of the second.\<close>

fun interleavings :: "nat \<Rightarrow> nat \<Rightarrow> bool list list" where
  "interleavings 0 n = [replicate n True]"
| "interleavings (Suc m) 0 = [replicate (Suc m) False]"
| "interleavings (Suc m) (Suc n) =
     map ((#) False) (interleavings m (Suc n)) @ map ((#) True) (interleavings (Suc m) n)"

text \<open>
  The schedules of two whole calls that overlap: each call is made before the other
  one has returned.
\<close>

definition overlapping :: "bool list list" where
  "overlapping =
     filter (\<lambda>w. w \<noteq> [False, False, False, True, True, True] \<and>
                 w \<noteq> [True, True, True, False, False, False])
       (interleavings 3 3)"

subsection \<open>Notifications that name one capability, and a bus that always answers\<close>

definition no_interfaces :: interfaces where
  "no_interfaces =
     \<lparr>Adapter1 = None, Device1 = None, GattService1 = None, GattCharacteristic1 = None,
      GattDescriptor1 = None\<rparr>"

definition adapter_added :: "props \<Rightarrow> interfaces" where
  "adapter_added props = no_interfaces\<lparr>Adapter1 := Some props\<rparr>"

definition device_added :: "string \<Rightarrow> props \<Rightarrow> interfaces" where
  "device_added address rest =
     no_interfaces\<lparr>Device1 := Some \<lparr>Address = address, dev_rest = rest\<rparr>\<rparr>"

definition service_added :: "string \<Rightarrow> string \<Rightarrow> interfaces" where
  "service_added dev uuid =
     no_interfaces\<lparr>GattService1 := Some \<lparr>sv_Device = dev, sv_UUID = uuid\<rparr>\<rparr>"

definition characteristic_added :: "string \<Rightarrow> string \<Rightarrow> interfaces" where
  "characteristic_added sv uuid =
     no_interfaces\<lparr>GattCharacteristic1 := Some \<lparr>ch_Service = sv, ch_UUID = uuid\<rparr>\<rparr>"

definition descriptor_added :: "string \<Rightarrow> string \<Rightarrow> interfaces" where
  "descriptor_added c uuid =
     no_interfaces\<lparr>GattDescriptor1 := Some \<lparr>ds_Characteristic = c, ds_UUID = uuid\<rparr>\<rparr>"

definition open_bus :: bus where
  "open_bus p n = True"

definition closed_bus :: bus where
  "closed_bus p n = False"

text \<open>The objects of the examples: one device of adapter hci0, one service, one characteristic.\<close>

definition mac :: string where
  "mac = ''AA:BB:CC:DD:EE:FF''"

definition dev_path :: string where
  "dev_path = ''/org/bluez/hci0/dev_AA_BB_CC_DD_EE_FF''"

definition svc_path :: string where
  "svc_path = ''/org/bluez/hci0/dev_AA_BB_CC_DD_EE_FF/service0001''"

definition chr_path :: string where
  "chr_path = ''/org/bluez/hci0/dev_AA_BB_CC_DD_EE_FF/service0001/char0002''"

definition svc_uuid :: string where
  "svc_uuid = ''0000ffe0-0000-1000-8000-00805f9b34fb''"

definition chr_uuid :: string where
  "chr_uuid = ''0000ffe1-0000-1000-8000-00805f9b34fb''"

text \<open>
  A bus on which these three objects exist and nothing else: \<open>getInterface\<close>
  resolves at their paths, for the interfaces they have, and rejects elsewhere.
\<close>

definition objects_bus :: bus where
  "objects_bus p n \<longleftrightarrow>
     (p, n) \<in> set [(dev_path, ''org.bluez.Device1''),
                   (dev_path, ''org.freedesktop.DBus.Properties''),
                   (svc_path, ''org.bluez.GattService1''),
                   (svc_path, ''org.freedesktop.DBus.Properties''),
                   (chr_path, ''org.bluez.GattCharacteristic1''),
                   (chr_path, ''org.freedesktop.DBus.Properties'')]"

text \<open>A new Bluez object that has seen the device announced, on a bus that always answers.\<close>

definition device_announced :: bluez where
  "device_announced =
     snd (onInterfacesAdded open_bus dev_path (device_added mac []) (new_Bluez False))"

text \<open>The same with a device of adapter hci1.\<close>

definition hci1_device_announced :: bluez where
  "hci1_device_announced =
     snd (onInterfacesAdded open_bus ''/org/bluez/hci1/dev_AA_BB'' (device_added ''AA:BB'' [])
            (new_Bluez False))"

section \<open>Properties\<close>

lemmas note_defs = no_interfaces_def adapter_added_def device_added_def service_added_def
  characteristic_added_def descriptor_added_def

lemmas example_defs = mac_def dev_path_def svc_path_def chr_path_def svc_uuid_def chr_uuid_def

subsection \<open>The regular expressions on well-formed paths\<close>

lemma not_word_slash [simp]: "\<not> is_word CHR ''/''"
  by (simp add: is_word_def)

lemma takeWhile_word_slash: "list_all is_word a \<Longrightarrow> takeWhile is_word (a @ CHR ''/'' # r) = a"
  by (induction a) auto

lemma dropWhile_word_slash:
  "list_all is_word a \<Longrightarrow> dropWhile is_word (a @ CHR ''/'' # r) = CHR ''/'' # r"
  by (induction a) auto

lemma takeWhile_word_all: "list_all is_word a \<Longrightarrow> takeWhile is_word a = a"
  by (induction a) auto

lemma dropWhile_word_all: "list_all is_word a \<Longrightarrow> dropWhile is_word a = []"
  by (induction a) auto

lemma match_removed_device:
  "word_seg a \<Longrightarrow> word_seg d \<Longrightarrow>
     match_removed (''/org/bluez/'' @ a @ ''/dev_'' @ d) = Some (a, Some d)"
  by (simp add: match_removed_def word_seg_def takeWhile_word_slash dropWhile_word_slash)

lemma match_removed_adapter:
  "word_seg a \<Longrightarrow> match_removed (''/org/bluez/'' @ a) = Some (a, None)"
  by (simp add: match_removed_def word_seg_def takeWhile_word_all dropWhile_word_all)

lemma match_removed_dev_path: "match_removed dev_path = Some (''hci0'', Some ''AA_BB_CC_DD_EE_FF'')"
  by code_simp

lemma device_address_mac: "device_address mac = mac"
  by code_simp

lemma properties_path_mac: "properties_path mac = dev_path"
  by code_simp

lemma underscores_to_colons_mac: "underscores_to_colons ''AA_BB_CC_DD_EE_FF'' = mac"
  by code_simp

subsection \<open>What the blocks of onInterfacesAdded leave alone\<close>

lemma getDevice_frame [simp]:
  "events (snd (getDevice b a s)) = events s"
  "adapter (snd (getDevice b a s)) = adapter s"
  by (simp_all add: getDevice_def getDevice_install_def Let_def
      split: sum.splits prod.splits option.splits jsval.splits)

lemma new_dict_frame [simp]:
  "events (snd (new_cdict s)) = events s" "adapter (snd (new_cdict s)) = adapter s"
  "events (snd (new_ddict s)) = events s" "adapter (snd (new_ddict s)) = adapter s"
  by (simp_all add: new_cdict_def new_ddict_def)

lemma set_service_frame [simp]:
  "events (snd (set_service d u sv s)) = events s"
  "adapter (snd (set_service d u sv s)) = adapter s"
  by (simp_all add: set_service_def split: jsval.splits)

lemma copy_frame [simp]:
  "events (snd (copy_characteristics p sv s)) = events s"
  "adapter (snd (copy_characteristics p sv s)) = adapter s"
  "events (snd (copy_descriptors p c s)) = events s"
  "adapter (snd (copy_descriptors p c s)) = adapter s"
  "events (snd (service_or_holder p s)) = events s"
  "adapter (snd (service_or_holder p s)) = adapter s"
  "events (snd (characteristic_or_holder p s)) = events s"
  "adapter (snd (characteristic_or_holder p s)) = adapter s"
  by (simp_all add: copy_characteristics_def copy_descriptors_def service_or_holder_def
      characteristic_or_holder_def new_cdict_def new_ddict_def split: option.splits)

lemma added_GattService1_frame [simp]:
  "events (snd (added_GattService1 b path props s)) = events s"
  "adapter (snd (added_GattService1 b path props s)) = adapter s"
  unfolding added_GattService1_def new_Service_def
  by (simp_all add: Let_def split_beta split: sum.splits prod.splits option.splits)

lemma added_GattCharacteristic1_frame [simp]:
  "events (snd (added_GattCharacteristic1 b path props s)) = events s"
  "adapter (snd (added_GattCharacteristic1 b path props s)) = adapter s"
  unfolding added_GattCharacteristic1_def new_Characteristic_def
  by (simp_all add: Let_def split_beta split: option.splits)

lemma added_GattDescriptor1_frame [simp]:
  "events (snd (added_GattDescriptor1 b path props s)) = events s"
  "adapter (snd (added_GattDescriptor1 b path props s)) = adapter s"
  unfolding added_GattDescriptor1_def
  by (simp_all add: Let_def split_beta split: option.splits)

lemma onInterfacesAdded_adapter: "adapter (snd (onInterfacesAdded b path ifs s)) = adapter s"
  unfolding onInterfacesAdded_def then_block_def if_Adapter1_def if_Device1_def if_GattService1_def if_GattCharacteristic1_def if_GattDescriptor1_def
  by (simp add: Let_def split_beta added_Adapter1_def added_Device1_def emit_device_def
      split: option.splits)

subsection \<open>The claims\<close>

text \<open>
  C1 (out-of-order convergence).  The claim fails on the code where a service is
  announced before its device: \<open>getDevice\<close> throws "Device not found" inside the
  Service block, the handler rejects, and the service is stored nowhere.  After the
  device and the characteristic have been announced as well, the device's handle has
  no service under the service's UUID, and \<open>_path\<close> holds only the placeholder that
  the characteristic made for the service's path.  With the device announced first,
  the same three notifications give the full hierarchy.
\<close>

theorem service_before_device_is_lost:
  "(let (r1, s1) = onInterfacesAdded open_bus svc_path (service_added dev_path svc_uuid)
                     (new_Bluez False);
        (r2, s2) = onInterfacesAdded open_bus dev_path (device_added mac []) s1;
        (r3, s3) = onInterfacesAdded open_bus chr_path (characteristic_added svc_path chr_uuid) s2;
        (r4, s4) = getDevice open_bus mac s3
    in r1 = Some (Error ''Device not found'') \<and> r2 = None \<and> r3 = None \<and> r4 = Inr (Obj 3) \<and>
       getService s4 3 svc_uuid = None \<and> path_reg s4 svc_path = Some (PHolderC 2) \<and>
       \<not> characteristic_reachable s4 mac svc_uuid svc_path chr_uuid chr_path) \<and>
   (let (r1, s1) = onInterfacesAdded open_bus dev_path (device_added mac []) (new_Bluez False);
        (r2, s2) = onInterfacesAdded open_bus svc_path (service_added dev_path svc_uuid) s1;
        (r3, s3) = onInterfacesAdded open_bus chr_path (characteristic_added svc_path chr_uuid) s2
    in r1 = None \<and> r2 = None \<and> r3 = None \<and>
       characteristic_reachable s3 mac svc_uuid svc_path chr_uuid chr_path)"
  by code_simp

text \<open>
  C2 (no loss under orphaning).  The claim fails on the code where the Service block
  cannot get the device's handle: \<open>getDevice(props.Device)\<close> throws before the
  service takes over the characteristics held for its path (lines 284 to 290), the
  handler rejects, and the characteristic stays in the placeholder, reachable from no
  service.  This happens with the claim's two notifications alone, in either order
  (the device was not announced: "Device not found"), and also after the device was
  announced, on a bus that answers at the paths of its objects only: \<open>props.Device\<close>
  is the device's path, so line 81 asks for the Properties interface at
  \<open>/org/bluez/hci0/dev_\<close> followed by that whole path, where there is no object.
  The service takes over the held characteristic, in either order, when the handle
  of the device was built before the service is announced.
\<close>

theorem orphaned_characteristic_needs_handle:
  "(let (r1, s1) = onInterfacesAdded open_bus chr_path (characteristic_added svc_path chr_uuid)
                     (new_Bluez False);
        (r2, s2) = onInterfacesAdded open_bus svc_path (service_added dev_path svc_uuid) s1
    in r1 = None \<and> r2 = Some (Error ''Device not found'') \<and>
       path_reg s2 svc_path = Some (PHolderC 1) \<and>
       map_option c_iface (cdicts s2 1 chr_uuid) =
         Some (bind chr_path ''org.bluez.GattCharacteristic1'') \<and>
       devices s2 mac = None) \<and>
   (let (r1, s1) = onInterfacesAdded open_bus svc_path (service_added dev_path svc_uuid)
                     (new_Bluez False);
        (r2, s2) = onInterfacesAdded open_bus chr_path (characteristic_added svc_path chr_uuid) s1
    in r1 = Some (Error ''Device not found'') \<and> r2 = None \<and>
       path_reg s2 svc_path = Some (PHolderC 2) \<and>
       map_option c_iface (cdicts s2 2 chr_uuid) =
         Some (bind chr_path ''org.bluez.GattCharacteristic1'') \<and>
       devices s2 mac = None) \<and>
   (let (r1, s1) = onInterfacesAdded objects_bus chr_path (characteristic_added svc_path chr_uuid)
                     device_announced;
        (r2, s2) = onInterfacesAdded objects_bus svc_path (service_added dev_path svc_uuid) s1;
        (r3, s3) = getDevice objects_bus mac s2
    in r1 = None \<and> r2 = Some BusError \<and> r3 = Inr (Obj 3) \<and>
       getService s3 3 svc_uuid = None \<and> path_reg s3 svc_path = Some (PHolderC 1) \<and>
       \<not> characteristic_reachable s3 mac svc_uuid svc_path chr_uuid chr_path) \<and>
   (let (r1, s1) = onInterfacesAdded objects_bus svc_path (service_added dev_path svc_uuid)
                     device_announced;
        (r2, s2) = onInterfacesAdded objects_bus chr_path (characteristic_added svc_path chr_uuid) s1;
        (r3, s3) = getDevice objects_bus mac s2
    in r1 = Some BusError \<and> r2 = None \<and> r3 = Inr (Obj 3) \<and>
       getService s3 3 svc_uuid = None \<and> path_reg s3 svc_path = Some (PHolderC 2) \<and>
       \<not> characteristic_reachable s3 mac svc_uuid svc_path chr_uuid chr_path) \<and>
   (let (r0, s0) = getDevice objects_bus mac device_announced;
        (r1, s1) = onInterfacesAdded objects_bus chr_path (characteristic_added svc_path chr_uuid) s0;
        (r2, s2) = onInterfacesAdded objects_bus svc_path (service_added dev_path svc_uuid) s1
    in r0 = Inr (Obj 0) \<and> r1 = None \<and> r2 = None \<and>
       characteristic_reachable s2 mac svc_uuid svc_path chr_uuid chr_path) \<and>
   (let (r0, s0) = getDevice objects_bus mac device_announced;
        (r1, s1) = onInterfacesAdded objects_bus svc_path (service_added dev_path svc_uuid) s0;
        (r2, s2) = onInterfacesAdded objects_bus chr_path (characteristic_added svc_path chr_uuid) s1
    in r0 = Inr (Obj 0) \<and> r1 = None \<and> r2 = None \<and>
       characteristic_reachable s2 mac svc_uuid svc_path chr_uuid chr_path)"
  by code_simp

text \<open>
  C3 (device event once per path creation).  The claim fails on the code: the Device
  block emits \<open>'device'\<close> whenever the notification names the Device capability,
  also at a path that is registered already.  Announcing the same device twice
  delivers the event twice.
\<close>

theorem device_event_fires_again:
  "events (snd (onInterfacesAdded open_bus dev_path (device_added mac [])
             (snd (onInterfacesAdded open_bus dev_path (device_added mac []) (new_Bluez False))))) =
     [DeviceEvent mac \<lparr>Address = mac, dev_rest = []\<rparr>,
      DeviceEvent mac \<lparr>Address = mac, dev_rest = []\<rparr>]"
  by code_simp

text \<open>
  C3, amended.  Every "interfaces added" notification that names the Device
  capability emits the \<open>'device'\<close> event exactly once, with the address and the
  property bag of the notification, whether or not the path or the address was
  registered before; a notification that does not name it emits nothing.
\<close>

theorem device_event_per_notification:
  "events (snd (onInterfacesAdded b path ifs s)) =
     events s @
     (case Device1 ifs of None \<Rightarrow> [] | Some props \<Rightarrow> [DeviceEvent (Address props) props])"
  unfolding onInterfacesAdded_def then_block_def if_Adapter1_def if_Device1_def if_GattService1_def if_GattCharacteristic1_def if_GattDescriptor1_def
  by (simp add: Let_def split_beta added_Adapter1_def added_Device1_def emit_device_def
      split: option.splits)

theorem device_event_per_notification_witness:
  "events (snd (onInterfacesAdded open_bus dev_path (device_added mac []) device_announced)) =
     events device_announced @ [DeviceEvent mac \<lparr>Address = mac, dev_rest = []\<rparr>] \<and>
   events (snd (onInterfacesAdded open_bus svc_path (service_added dev_path svc_uuid)
                  device_announced)) = events device_announced"
  using device_event_per_notification [of open_bus dev_path "device_added mac []" device_announced]
    device_event_per_notification [of open_bus svc_path "service_added dev_path svc_uuid"
      device_announced]
  by (simp add: note_defs)

text \<open>
  C4 (removal destroys the entity).  The claim fails on the code for the GATT
  capabilities: \<open>onInterfaceRemoved\<close> looks only for the Device and Adapter interface
  names.  A service that was announced is still in \<open>_path\<close> after the removal of
  its Service capability.
\<close>

theorem removed_service_stays_registered:
  "path_reg
     (snd (onInterfaceRemoved svc_path [''org.bluez.GattService1'']
        (snd (onInterfacesAdded open_bus svc_path (service_added dev_path svc_uuid)
           device_announced))))
     svc_path =
   Some (PService \<lparr>s_iface = bind svc_path ''org.bluez.GattService1'', characteristics = 0\<rparr>)"
  by code_simp

text \<open>
  C4, amended.  An "interfaces removed" notification that names neither the Device
  nor the Adapter capability changes nothing and resolves.  Naming the Device
  capability (and not the Adapter capability) at a device path
  \<open>/org/bluez/<adapter>/dev_<id>\<close> deletes the entry of the address read from the
  path (underscores turned to colons) from \<open>devices\<close>, and nothing else.  Naming the
  Adapter capability (and not the Device capability) at an adapter path
  \<open>/org/bluez/<adapter>\<close> deletes the entry of the adapter id from \<open>adapter\<close>, and
  nothing else.  No entity carries a mark of being dead.
\<close>

theorem onInterfaceRemoved_effect:
  "(''org.bluez.Device1'' \<notin> set ifs \<and> ''org.bluez.Adapter1'' \<notin> set ifs \<longrightarrow>
      onInterfaceRemoved path ifs s = (None, s)) \<and>
   (word_seg a \<and> word_seg d \<and>
    ''org.bluez.Device1'' \<in> set ifs \<and> ''org.bluez.Adapter1'' \<notin> set ifs \<longrightarrow>
      onInterfaceRemoved (''/org/bluez/'' @ a @ ''/dev_'' @ d) ifs s =
        (None, s\<lparr>devices := (devices s)(underscores_to_colons d := None)\<rparr>)) \<and>
   (word_seg a \<and> ''org.bluez.Device1'' \<notin> set ifs \<and> ''org.bluez.Adapter1'' \<in> set ifs \<longrightarrow>
      onInterfaceRemoved (''/org/bluez/'' @ a) ifs s =
        (None, s\<lparr>adapter := (adapter s)(a := None)\<rparr>))"
proof (intro conjI impI)
  assume "''org.bluez.Device1'' \<notin> set ifs \<and> ''org.bluez.Adapter1'' \<notin> set ifs"
  then show "onInterfaceRemoved path ifs s = (None, s)"
    by (simp add: onInterfaceRemoved_def then_block_def)
next
  assume h: "word_seg a \<and> word_seg d \<and>
             ''org.bluez.Device1'' \<in> set ifs \<and> ''org.bluez.Adapter1'' \<notin> set ifs"
  then have "match_removed (''/org/bluez/'' @ a @ ''/dev_'' @ d) = Some (a, Some d)"
    using match_removed_device by blast
  with h show "onInterfaceRemoved (''/org/bluez/'' @ a @ ''/dev_'' @ d) ifs s =
        (None, s\<lparr>devices := (devices s)(underscores_to_colons d := None)\<rparr>)"
    by (simp add: onInterfaceRemoved_def then_block_def removed_Device1_def)
next
  assume h: "word_seg a \<and> ''org.bluez.Device1'' \<notin> set ifs \<and> ''org.bluez.Adapter1'' \<in> set ifs"
  then have "match_removed (''/org/bluez/'' @ a) = Some (a, None)"
    using match_removed_adapter by blast
  moreover from h have "a \<noteq> []" by (simp add: word_seg_def)
  ultimately show "onInterfaceRemoved (''/org/bluez/'' @ a) ifs s =
        (None, s\<lparr>adapter := (adapter s)(a := None)\<rparr>)"
    using h by (simp add: onInterfaceRemoved_def then_block_def removed_Adapter1_def)
qed

theorem onInterfaceRemoved_effect_witness:
  "word_seg ''hci0'' \<and> word_seg ''AA_BB_CC_DD_EE_FF'' \<and>
   onInterfaceRemoved svc_path [''org.bluez.GattService1''] device_announced =
     (None, device_announced) \<and>
   fst (onInterfaceRemoved dev_path [''org.bluez.Device1''] device_announced) = None \<and>
   devices device_announced mac = Some (Str dev_path) \<and>
   devices (snd (onInterfaceRemoved dev_path [''org.bluez.Device1''] device_announced)) mac = None \<and>
   onInterfaceRemoved ''/org/bluez/hci0'' [''org.bluez.Adapter1''] device_announced =
     (None, device_announced\<lparr>adapter := (adapter device_announced)(''hci0'' := None)\<rparr>)"
proof -
  have w: "word_seg ''hci0''" "word_seg ''AA_BB_CC_DD_EE_FF''"
    by (simp_all add: word_seg_def is_word_def)
  have d: "devices device_announced mac = Some (Str dev_path)" by code_simp
  show ?thesis
    using w d
      onInterfaceRemoved_effect [of "[''org.bluez.GattService1'']" svc_path device_announced]
      onInterfaceRemoved_effect [of "[''org.bluez.Device1'']" _ device_announced
        "''hci0''" "''AA_BB_CC_DD_EE_FF''"]
      onInterfaceRemoved_effect [of "[''org.bluez.Adapter1'']" _ device_announced "''hci0''"]
    by (simp add: dev_path_def underscores_to_colons_mac)
qed

text \<open>
  C5 (a removal at an unrecognised path is reported, not thrown).  The claim fails
  on the code where the path does not match the regular expression of line 331 at
  all: \<open>match\<close> is \<open>null\<close>, so \<open>match[2]\<close> and \<open>match[1]\<close> throw a TypeError
  before the branch that emits \<open>'error'\<close> is reached.  The handler rejects and no
  event is emitted, with or without a listener for \<open>'error'\<close>.
\<close>

theorem removal_at_unmatched_path_throws:
  "onInterfaceRemoved svc_path [''org.bluez.Device1''] s = (Some TypeError, s) \<and>
   onInterfaceRemoved ''/org/bluez'' [''org.bluez.Adapter1''] s = (Some TypeError, s)"
proof -
  have "match_removed svc_path = None" by code_simp
  moreover have "match_removed ''/org/bluez'' = None" by code_simp
  ultimately show ?thesis
    by (simp add: onInterfaceRemoved_def then_block_def removed_Device1_def removed_Adapter1_def)
qed

text \<open>
  C6 (the getDevice scenario).  On a new Bluez object the adapter hci0 and then the
  device AA:BB:CC:DD:EE:FF are announced, on a bus that answers for the device's
  Device1 and Properties interfaces.  Then \<open>getDevice\<close> of the address returns a
  handle, \<open>getDevice\<close> of an address that was never announced throws "Device not
  found", and after the removal of the Device capability at the device's path
  \<open>getDevice\<close> of the address throws "Device not found" (whether or not the handle
  had been built before the removal).
\<close>

theorem getDevice_scenario:
  assumes "b dev_path ''org.bluez.Device1''"
    and "b dev_path ''org.freedesktop.DBus.Properties''"
  shows "(let s1 = snd (onInterfacesAdded b ''/org/bluez/hci0'' (adapter_added aprops)
                          (new_Bluez l));
              s2 = snd (onInterfacesAdded b dev_path
                          (device_added mac [(''Connected'', ''false'')]) s1);
              (r3, s3) = getDevice b mac s2;
              (r4, s4) = getDevice b ''11:22:33:44:55:66'' s3;
              s5 = snd (onInterfaceRemoved dev_path [''org.bluez.Device1''] s4);
              s6 = snd (onInterfaceRemoved dev_path [''org.bluez.Device1''] s2)
          in r3 = Inr (Obj 0) \<and> r4 = Inl (Error ''Device not found'') \<and>
             fst (getDevice b mac s5) = Inl (Error ''Device not found'') \<and>
             fst (getDevice b mac s6) = Inl (Error ''Device not found''))"
proof -
  have a: "device_address ''11:22:33:44:55:66'' = ''11:22:33:44:55:66''" by code_simp
  have m: "mac \<noteq> ''11:22:33:44:55:66''" "mac \<noteq> ''__proto__''" "mac \<noteq> []"
    "mac \<notin> set object_prototype_keys" "''11:22:33:44:55:66'' \<notin> set object_prototype_keys"
    "dev_path \<noteq> []"
    by (simp_all add: mac_def dev_path_def object_prototype_keys_def)
  show ?thesis
    using assms m
    by (simp add: onInterfacesAdded_def then_block_def if_Adapter1_def if_Device1_def if_GattService1_def if_GattCharacteristic1_def if_GattDescriptor1_def added_Adapter1_def added_Device1_def emit_device_def
        note_defs new_Bluez_def getDevice_def getDevice_enter_def getDevice_install_def
        js_get_def js_set_str_def onInterfaceRemoved_def then_block_def removed_Device1_def
        match_removed_dev_path underscores_to_colons_mac device_address_mac properties_path_mac a)
qed

theorem getDevice_scenario_witness:
  "open_bus dev_path ''org.bluez.Device1'' \<and>
   open_bus dev_path ''org.freedesktop.DBus.Properties'' \<and>
   fst (getDevice open_bus mac
          (snd (onInterfacesAdded open_bus dev_path (device_added mac [(''Connected'', ''false'')])
             (snd (onInterfacesAdded open_bus ''/org/bluez/hci0'' (adapter_added [])
                (new_Bluez False)))))) = Inr (Obj 0)"
  using getDevice_scenario [of open_bus "[]" False]
  by (simp add: open_bus_def split_beta Let_def)

text \<open>
  C7 (getAdapter fails for an identifier that is not registered).  The claim fails
  on the code: with nothing stored under the identifier, \<open>getAdapter\<close> asks the bus
  for the Adapter1 interface at the default path, and when the bus answers it
  returns a handle.  On a new Bluez object, to which no adapter was announced,
  \<open>getAdapter("hci0")\<close> succeeds.
\<close>

theorem getAdapter_unannounced_succeeds:
  "adapter (new_Bluez False) ''hci0'' = None \<and>
   fst (getAdapter open_bus ''hci0'' (new_Bluez False)) =
     Inr (Obj (new_Adapter (bind ''/org/bluez/hci0'' ''org.bluez.Adapter1'')))"
  by code_simp

text \<open>
  C7, amended.  For every identifier under which \<open>adapter\<close> has nothing at call
  time, \<open>getAdapter\<close> binds the Adapter1 interface at \<open>/org/bluez/<id>\<close> (the id is
  the identifier, or its last segment when the identifier is an adapter path).  It
  fails with "Adapter not found" exactly when the bus rejects that bind; when the
  bus answers it returns a new handle and stores it under the id, also for an
  adapter that was never announced.  An "interfaces added" notification never
  stores anything in \<open>adapter\<close>.
\<close>

theorem getAdapter_unregistered:
  assumes "js_get (adapter s) (adapter_id dev0) = None"
  shows "getAdapter b dev0 s =
     (if b (''/org/bluez/'' @ adapter_id dev0) ''org.bluez.Adapter1''
      then (Inr (Obj (new_Adapter (bind (''/org/bluez/'' @ adapter_id dev0) ''org.bluez.Adapter1''))),
            s\<lparr>adapter := (adapter s)(adapter_id dev0 \<mapsto>
                Obj (new_Adapter (bind (''/org/bluez/'' @ adapter_id dev0) ''org.bluez.Adapter1'')))\<rparr>)
      else (Inl (Error ''Adapter not found''), s))
    \<and> adapter (snd (onInterfacesAdded b path ifs s)) = adapter s"
  using assms by (simp add: getAdapter_def onInterfacesAdded_adapter Let_def)

theorem getAdapter_unregistered_witness:
  "js_get (adapter (snd (onInterfacesAdded open_bus ''/org/bluez/hci0'' (adapter_added [])
                           (new_Bluez False))))
     (adapter_id ''/org/bluez/hci0'') = None \<and>
   fst (getAdapter closed_bus ''/org/bluez/hci0''
          (snd (onInterfacesAdded open_bus ''/org/bluez/hci0'' (adapter_added [])
             (new_Bluez False)))) = Inl (Error ''Adapter not found'') \<and>
   fst (getAdapter open_bus ''/org/bluez/hci0''
          (snd (onInterfacesAdded open_bus ''/org/bluez/hci0'' (adapter_added [])
             (new_Bluez False)))) =
     Inr (Obj (new_Adapter (bind ''/org/bluez/hci0'' ''org.bluez.Adapter1'')))"
proof -
  let ?s = "snd (onInterfacesAdded open_bus ''/org/bluez/hci0'' (adapter_added [])
                   (new_Bluez False))"
  have i: "adapter_id ''/org/bluez/hci0'' = ''hci0''" by code_simp
  have a: "js_get (adapter ?s) (adapter_id ''/org/bluez/hci0'') = None"
    by (simp add: onInterfacesAdded_adapter i new_Bluez_def js_get_def object_prototype_keys_def)
  show ?thesis
    using getAdapter_unregistered [OF a, of closed_bus] getAdapter_unregistered [OF a, of open_bus] a
    by (simp add: i open_bus_def closed_bus_def)
qed

text \<open>
  C10 (where getDevice binds the Properties interface).  When \<open>devices\<close> holds a
  path string under the address, so that \<open>getDevice\<close> has to build a handle, the
  Device1 interface is bound at the stored path and the Properties interface at
  \<open>/org/bluez/hci0/dev_\<close> followed by the whole identifier as it was passed, each
  colon of it replaced by an underscore and every other character kept: the adapter
  of the stored path plays no part, and an identifier given as a device path is
  pasted in whole.  The call fails when the bus rejects either bind.
\<close>

theorem getDevice_properties_path:
  assumes "devices s (device_address address0) = Some (Str p)" and "p \<noteq> []"
  shows "getDevice b address0 s =
     (if b p ''org.bluez.Device1'' \<and>
         b (''/org/bluez/hci0/dev_'' @ map (\<lambda>c. if c = CHR '':'' then CHR ''_'' else c) address0)
           ''org.freedesktop.DBus.Properties''
      then (Inr (Obj (nxt s)),
            s\<lparr>devices := (devices s)(device_address address0 \<mapsto> Obj (nxt s)),
              devobjs := (devobjs s)(nxt s :=
                \<lparr>dev_iface = \<lparr>ipath = p, iname = ''org.bluez.Device1''\<rparr>,
                 dev_changed =
                   \<lparr>ipath = ''/org/bluez/hci0/dev_'' @
                              map (\<lambda>c. if c = CHR '':'' then CHR ''_'' else c) address0,
                    iname = ''org.freedesktop.DBus.Properties''\<rparr>,
                 services = Map.empty\<rparr>),
              nxt := Suc (nxt s)\<rparr>)
      else (Inl BusError, s))"
  using assms
  by (simp add: getDevice_def getDevice_enter_def getDevice_install_def js_get_def
      properties_path_def colons_to_underscores_def new_Device_def bind_def)

text \<open>
  A device of adapter hci1 is announced.  Asked for by its address, the Properties
  interface is bound at \<open>/org/bluez/hci0/dev_AA_BB\<close>, where the device is not;
  asked for by its path, at the whole path pasted after \<open>/org/bluez/hci0/dev_\<close>.
\<close>

theorem getDevice_properties_path_witness:
  "devices hci1_device_announced (device_address ''AA:BB'') =
     Some (Str ''/org/bluez/hci1/dev_AA_BB'') \<and>
   devices hci1_device_announced (device_address ''/org/bluez/hci1/dev_AA_BB'') =
     Some (Str ''/org/bluez/hci1/dev_AA_BB'') \<and>
   ''/org/bluez/hci1/dev_AA_BB'' \<noteq> [] \<and>
   fst (getDevice open_bus ''AA:BB'' hci1_device_announced) = Inr (Obj 0) \<and>
   dev_iface (devobjs (snd (getDevice open_bus ''AA:BB'' hci1_device_announced)) 0) =
     \<lparr>ipath = ''/org/bluez/hci1/dev_AA_BB'', iname = ''org.bluez.Device1''\<rparr> \<and>
   dev_changed (devobjs (snd (getDevice open_bus ''AA:BB'' hci1_device_announced)) 0) =
     \<lparr>ipath = ''/org/bluez/hci0/dev_AA_BB'', iname = ''org.freedesktop.DBus.Properties''\<rparr> \<and>
   fst (getDevice open_bus ''/org/bluez/hci1/dev_AA_BB'' hci1_device_announced) = Inr (Obj 0) \<and>
   dev_changed (devobjs (snd (getDevice open_bus ''/org/bluez/hci1/dev_AA_BB''
                                hci1_device_announced)) 0) =
     \<lparr>ipath = ''/org/bluez/hci0/dev_/org/bluez/hci1/dev_AA_BB'',
      iname = ''org.freedesktop.DBus.Properties''\<rparr> \<and>
   fst (getDevice (\<lambda>p n. p \<noteq> ''/org/bluez/hci0/dev_AA_BB'') ''AA:BB'' hci1_device_announced) =
     Inl BusError"
proof -
  have h1: "devices hci1_device_announced (device_address ''AA:BB'') =
              Some (Str ''/org/bluez/hci1/dev_AA_BB'')"
    by code_simp
  have h2: "devices hci1_device_announced (device_address ''/org/bluez/hci1/dev_AA_BB'') =
              Some (Str ''/org/bluez/hci1/dev_AA_BB'')"
    by code_simp
  have n: "nxt hci1_device_announced = 0" by code_simp
  show ?thesis
    using getDevice_properties_path [OF h1, of open_bus]
      getDevice_properties_path [OF h2, of open_bus]
      getDevice_properties_path [OF h1, of "\<lambda>p n. p \<noteq> ''/org/bluez/hci0/dev_AA_BB''"]
      h1 h2 n
    by (simp add: open_bus_def)
qed

subsection \<open>Concurrent calls of getDevice\<close>

text \<open>One call run alone through its three steps is \<open>getDevice\<close>.\<close>

lemma getDevice_as_steps:
  "(case interleave b [False, False, False] (Called a, c, s, []) of
      (c1, c2, s1, l) \<Rightarrow>
        c1 = Returned (fst (getDevice b a s)) \<and> c2 = c \<and> s1 = snd (getDevice b a s))"
  by (simp add: getDevice_def split_beta split: sum.splits prod.splits)

lemma overlapping_cases: "overlapping =
    [[False, False, True, False, True, True], [False, False, True, True, False, True],
     [False, False, True, True, True, False], [False, True, False, False, True, True],
     [False, True, False, True, False, True], [False, True, False, True, True, False],
     [False, True, True, False, False, True], [False, True, True, False, True, False],
     [False, True, True, True, False, False], [True, False, False, False, True, True],
     [True, False, False, True, False, True], [True, False, False, True, True, False],
     [True, False, True, False, False, True], [True, False, True, False, True, False],
     [True, False, True, True, False, False], [True, True, False, False, False, True],
     [True, True, False, False, True, False], [True, True, False, True, False, False]]"
  by code_simp

text \<open>
  C8 (single-flight resolution).  The claim fails on the code: nothing records that
  a resolution is in flight, so a second call made before the first has returned
  passes the check of line 78 as well and issues its own two \<open>getInterface\<close> calls.
  With the two calls taking their steps in turn, the bus sees four calls.  Both
  calls do return the same handle.
\<close>

theorem concurrent_getDevice_binds_twice:
  "fst (interleave open_bus [False, True, False, True, False, True]
          (Called mac, Called mac, device_announced, [])) = Returned (Inr (Obj 0)) \<and>
   fst (snd (interleave open_bus [False, True, False, True, False, True]
          (Called mac, Called mac, device_announced, []))) = Returned (Inr (Obj 0)) \<and>
   snd (snd (snd (interleave open_bus [False, True, False, True, False, True]
          (Called mac, Called mac, device_announced, [])))) =
     [(dev_path, ''org.bluez.Device1''), (dev_path, ''org.bluez.Device1''),
      (dev_path, ''org.freedesktop.DBus.Properties''),
      (dev_path, ''org.freedesktop.DBus.Properties'')]"
  by code_simp

text \<open>
  C8, amended.  Two \<open>getDevice\<close> calls for the same identifier are made while
  \<open>devices\<close> holds the path string, each before the other has returned, on a bus
  that answers both binds.  Whatever the order of their steps, each call issues its
  own two \<open>getInterface\<close> calls (four in all, two for Device1 at the stored path and
  two for Properties), both calls return the same handle, the one that the call
  reaching line 83 first has stored, and the state is the one a single call leaves.
\<close>

theorem concurrent_getDevice_same_handle:
  assumes "devices s (device_address a) = Some (Str p)" and "p \<noteq> []"
    and "b p ''org.bluez.Device1''"
    and "b (properties_path a) ''org.freedesktop.DBus.Properties''"
    and "w \<in> set overlapping"
  shows "(case interleave b w (Called a, Called a, s, []) of
            (c1, c2, s1, l) \<Rightarrow>
              c1 = Returned (Inr (Obj (nxt s))) \<and> c2 = Returned (Inr (Obj (nxt s))) \<and>
              s1 = snd (getDevice b a s) \<and>
              length l = 4 \<and>
              count_list l (p, ''org.bluez.Device1'') = 2 \<and>
              count_list l (properties_path a, ''org.freedesktop.DBus.Properties'') = 2)"
proof -
  define i1 where "i1 = bind p ''org.bluez.Device1''"
  define i2 where "i2 = bind (properties_path a) ''org.freedesktop.DBus.Properties''"
  define s2 where "s2 = snd (getDevice b a s)"
  define k1 where "k1 = (p, ''org.bluez.Device1'')"
  define k2 where "k2 = (properties_path a, ''org.freedesktop.DBus.Properties'')"
  have k: "k1 \<noteq> k2" by (simp add: k1_def k2_def)
  have e: "getDevice_enter a s = Inr (device_address a, p, properties_path a)"
    using assms(1,2) by (simp add: getDevice_enter_def js_get_def)
  have s2: "s2 = s\<lparr>devices := (devices s)(device_address a \<mapsto> Obj (nxt s)),
               devobjs := (devobjs s)(nxt s := new_Device i1 i2),
               nxt := Suc (nxt s)\<rparr>"
    using assms(1,3,4)
    by (simp add: s2_def getDevice_def e getDevice_install_def js_get_def i1_def i2_def)
  have a1: "advance b (Called a) (s, l) =
              (AwaitDevice1 (device_address a) p (properties_path a), s, l @ [k1])" for l
    by (simp add: e k1_def)
  have a2: "advance b (AwaitDevice1 (device_address a) p (properties_path a)) (t, l) =
              (AwaitProperties (device_address a) i1 (properties_path a), t, l @ [k2])" for t l
    using assms(3) by (simp add: i1_def k2_def)
  have a3: "advance b (AwaitProperties (device_address a) i1 (properties_path a)) (s, l) =
              (Returned (Inr (Obj (nxt s))), s2, l)" for l
    using assms(1,4) by (simp add: s2 getDevice_install_def js_get_def i2_def)
  have a4: "advance b (AwaitProperties (device_address a) i1 (properties_path a)) (s2, l) =
              (Returned (Inr (Obj (nxt s))), s2, l)" for l
    using assms(4) by (simp add: s2 getDevice_install_def js_get_def)
  have fin: "interleave b [] (Returned (Inr (Obj (nxt s))), Returned (Inr (Obj (nxt s))), s2, l) =
      (Returned (Inr (Obj (nxt s))), Returned (Inr (Obj (nxt s))), s2, l)" for l
    by simp
  note steps = interleave.simps(2) a1 a2 a3 a4
  from assms(5) [unfolded overlapping_cases]
  have "(case interleave b w (Called a, Called a, s, []) of
            (c1, c2, s1, l) \<Rightarrow>
              c1 = Returned (Inr (Obj (nxt s))) \<and> c2 = Returned (Inr (Obj (nxt s))) \<and>
              s1 = s2 \<and> length l = 4 \<and> count_list l k1 = 2 \<and> count_list l k2 = 2)"
    using k by (auto simp only: set_simps insert_iff empty_iff steps fin if_True if_False
         prod.case append.simps list.size count_list.simps refl simp_thms)
      (simp_all add: eval_nat_numeral)
  then show ?thesis by (simp add: s2_def k1_def k2_def)
qed

theorem concurrent_getDevice_same_handle_witness:
  "devices device_announced (device_address mac) = Some (Str dev_path) \<and> dev_path \<noteq> [] \<and>
   open_bus dev_path ''org.bluez.Device1'' \<and>
   open_bus (properties_path mac) ''org.freedesktop.DBus.Properties'' \<and>
   [False, True, True, False, False, True] \<in> set overlapping \<and>
   fst (interleave open_bus [False, True, True, False, False, True]
          (Called mac, Called mac, device_announced, [])) = Returned (Inr (Obj 0)) \<and>
   fst (snd (interleave open_bus [False, True, True, False, False, True]
          (Called mac, Called mac, device_announced, []))) = Returned (Inr (Obj 0)) \<and>
   length (snd (snd (snd (interleave open_bus [False, True, True, False, False, True]
          (Called mac, Called mac, device_announced, []))))) = 4"
proof -
  have h1: "devices device_announced (device_address mac) = Some (Str dev_path)" by code_simp
  have h2: "dev_path \<noteq> []" by code_simp
  have h3: "open_bus dev_path ''org.bluez.Device1''" by (simp add: open_bus_def)
  have h4: "open_bus (properties_path mac) ''org.freedesktop.DBus.Properties''"
    by (simp add: open_bus_def)
  have h5: "[False, True, True, False, False, True] \<in> set overlapping"
    by (simp add: overlapping_cases)
  have n: "nxt device_announced = 0" by code_simp
  from concurrent_getDevice_same_handle [where b = open_bus, OF h1 h2 h3 h4 h5]
  show ?thesis
    using h1 h2 h3 h4 h5 n by (simp add: split_beta)
qed

end
